theory Spec2Isabelle
  imports Complex_Main
begin

section \<open>The Kampung Spirit dashboard (D01.py)\<close>

text \<open>
  The program is one Python script: \<open>get_lat_lon\<close> asks the OneMap search endpoint for
  the coordinates of a postal code, \<open>load_sheet\<close> reads one worksheet, converts its
  \<open>Event Date\<close> column and geocodes every row, and the Dash callback
  \<open>update_dashboard\<close> filters the rows by date and builds thirteen outputs.

  The library calls whose results the script only passes on (reading the workbook, parsing
  a date, \<open>str\<close>, \<open>float\<close>, the HTTP request, the f-string number formats) are the
  fields of an environment record.

  Numbers are exact rationals. The sums, means and quotients of pandas are \<open>int64\<close> and
  \<open>float64\<close> values, which wrap around and round; the exact value stands for them here,
  so this development describes which rows and columns reach the statistics and under which
  guards, and says nothing about the digits a card displays. The one number it does state is
  the \<open>0\<close> of the attrition rate without registrants, which the script writes as a
  literal.
\<close>

subsection \<open>Data\<close>

text \<open>
  A cell of the table. \<open>Null\<close> is the missing value of pandas in each of its guises
  (\<open>None\<close>, \<open>NaN\<close>, \<open>NaT\<close>). \<open>Date t z\<close> is a timestamp: \<open>t\<close> counts the
  nanoseconds since the epoch, and \<open>z\<close> tells whether the timestamp carries a time zone.
  With a time zone \<open>t\<close> is the instant in UTC, without one it is the time on the wall
  clock.
\<close>

datatype cell = Num rat | Str string | Date int bool | Null

datatype dtype = Numeric | Datetime | Object

type_synonym row = "string \<Rightarrow> cell"

text \<open>
  A DataFrame: the column labels in order, each with the dtype pandas keeps for it, and
  the rows in index order. A row gives the cell under each label.
\<close>

record frame =
  columns :: "(string \<times> dtype) list"
  rows :: "row list"

datatype error =
    KeyError string
  | IndexError
  | ValueError
  | TypeError
  | RequestError

text \<open>
  What \<open>pd.to_datetime\<close> reads from one value: a timestamp, \<open>NaT\<close> (pandas reads
  it from text such as \<open>NaT\<close> or \<open>nan\<close>), or nothing.
\<close>

datatype parsed = Timestamp int bool | NaT | Unparsable

text \<open>The JSON answer of the search endpoint, as far as the script reads it.\<close>

record geo_hit =
  LATITUDE :: string
  LONGITUDE :: string

record response =
  found :: int
  results :: "geo_hit list"

text \<open>
  The libraries and the outside world.
  \<^item> \<open>read_excel\<close>: the worksheet of that name, \<open>None\<close> when the workbook has none
    (pandas raises \<open>ValueError\<close>);
  \<^item> \<open>to_datetime\<close>: what pandas reads from a value that is neither missing nor a
    timestamp already. The first argument is the whole sequence that is being converted:
    pandas settles on one format for a sequence, so the same text can be a timestamp in one
    column and nothing in another. A single value is converted as the sequence of itself;
  \<^item> \<open>requests_get_json\<close>: \<open>requests.get(url).json()\<close>, \<open>Inl\<close> when either call raises;
  \<^item> \<open>py_str\<close> and \<open>py_float\<close>: the built-ins \<open>str\<close> and \<open>float\<close>
    (\<open>None\<close>: \<open>ValueError\<close>);
  \<^item> \<open>format_plain\<close> and \<open>format_2f\<close>: the f-string renderings \<open>{x}\<close> and
    \<open>{x:.2f}\<close>; the argument \<open>None\<close> of the second is \<open>NaN\<close>.
\<close>

record env =
  read_excel :: "string \<Rightarrow> frame option"
  to_datetime :: "cell list \<Rightarrow> cell \<Rightarrow> parsed"
  requests_get_json :: "string \<Rightarrow> error + response"
  py_str :: "cell \<Rightarrow> string"
  py_float :: "string \<Rightarrow> rat option"
  format_plain :: "rat \<Rightarrow> string"
  format_2f :: "rat option \<Rightarrow> string"

subsection \<open>Errors and DataFrame access\<close>

text \<open>Sequencing of steps that may raise: the first exception ends the run.\<close>

definition bind_err :: "error + 'a \<Rightarrow> ('a \<Rightarrow> error + 'b) \<Rightarrow> error + 'b" where
  "bind_err m f = (case m of Inl e \<Rightarrow> Inl e | Inr x \<Rightarrow> f x)"

text \<open>\<open>df[c]\<close>: the column, \<open>KeyError\<close> when the frame has no such label.\<close>

definition getitem :: "frame \<Rightarrow> string \<Rightarrow> error + cell list" where
  "getitem df c =
     (if c \<in> fst ` set (columns df) then Inr (map (\<lambda>r. r c) (rows df))
      else Inl (KeyError c))"

text \<open>
  The label list after \<open>df[c] = ...\<close>: an existing column keeps its place and takes
  the new dtype, a new one goes to the end.
\<close>

fun set_dtype :: "(string \<times> dtype) list \<Rightarrow> string \<Rightarrow> dtype \<Rightarrow> (string \<times> dtype) list" where
  "set_dtype [] c t = [(c, t)]"
| "set_dtype ((c', t') # cs) c t =
     (if c' = c then (c, t) # cs else (c', t') # set_dtype cs c t)"

text \<open>
  \<open>df[c] = values\<close>: one value per row, \<open>ValueError\<close> when the lengths differ.
\<close>

definition setitem :: "frame \<Rightarrow> string \<Rightarrow> dtype \<Rightarrow> cell list \<Rightarrow> error + frame" where
  "setitem df c t vs =
     (if length vs \<noteq> length (rows df) then Inl ValueError
      else Inr \<lparr>columns = set_dtype (columns df) c t,
                rows = map (\<lambda>(r, v). r(c := v)) (zip (rows df) vs)\<rparr>)"

text \<open>The dtype pandas infers for a sequence of floats and \<open>None\<close>s.\<close>

definition infer_dtype :: "cell list \<Rightarrow> dtype" where
  "infer_dtype vs = (if \<exists>v \<in> set vs. v \<noteq> Null then Numeric else Object)"

subsection \<open>\<open>get_lat_lon\<close> (lines 16--25)\<close>

definition search_url :: "string \<Rightarrow> string" where
  "search_url postal_code =
     ''https://www.onemap.gov.sg/api/common/elastic/search?searchVal='' @ postal_code
       @ ''&returnGeom=Y&getAddrDetails=N''"

text \<open>
  The second argument and the second component of the result are the list of URLs
  requested so far: every call appends its own.
\<close>

definition get_lat_lon :: "env \<Rightarrow> cell \<Rightarrow> string list \<Rightarrow> (error + cell \<times> cell) \<times> string list" where
  "get_lat_lon E postal_code reqs =
     (let url = search_url (py_str E postal_code);
          reqs' = reqs @ [url]
      in case requests_get_json E url of
           Inl e \<Rightarrow> (Inl e, reqs')
         | Inr resp \<Rightarrow>
             if found resp > 0 then
               (case results resp of
                  [] \<Rightarrow> (Inl IndexError, reqs')
                | hit # _ \<Rightarrow>
                    (case py_float E (LATITUDE hit) of
                       None \<Rightarrow> (Inl ValueError, reqs')
                     | Some lat \<Rightarrow>
                         (case py_float E (LONGITUDE hit) of
                            None \<Rightarrow> (Inl ValueError, reqs')
                          | Some lon \<Rightarrow> (Inr (Num lat, Num lon), reqs'))))
             else (Inr (Null, Null), reqs'))"

subsection \<open>\<open>load_sheet\<close> (lines 28--35)\<close>

text \<open>
  \<open>pd.to_datetime(column, errors='coerce')\<close> at one value of the column: what is not
  read as a timestamp becomes \<open>NaT\<close>.
\<close>

definition to_datetime_coerce :: "env \<Rightarrow> cell list \<Rightarrow> cell \<Rightarrow> cell" where
  "to_datetime_coerce E column c =
     (case c of
        Null \<Rightarrow> Null
      | Date t z \<Rightarrow> Date t z
      | _ \<Rightarrow> (case to_datetime E column c of Timestamp t z \<Rightarrow> Date t z | _ \<Rightarrow> Null))"

text \<open>
  \<open>df["Postal Code"].apply(get_lat_lon)\<close>: one call per element, in index order; an
  exception in a call ends the loop.
\<close>

fun apply_get_lat_lon :: "env \<Rightarrow> cell list \<Rightarrow> string list \<Rightarrow> (error + (cell \<times> cell) list) \<times> string list" where
  "apply_get_lat_lon E [] reqs = (Inr [], reqs)"
| "apply_get_lat_lon E (p # ps) reqs =
     (case get_lat_lon E p reqs of
        (Inl e, reqs') \<Rightarrow> (Inl e, reqs')
      | (Inr ll, reqs') \<Rightarrow>
          (case apply_get_lat_lon E ps reqs' of
             (Inl e, reqs'') \<Rightarrow> (Inl e, reqs'')
           | (Inr lls, reqs'') \<Rightarrow> (Inr (ll # lls), reqs'')))"

text \<open>
  \<open>a, b = zip(*pairs)\<close>: with no pair at all \<open>zip\<close> yields nothing and the unpacking
  raises \<open>ValueError\<close>.
\<close>

definition unzip_pairs :: "(cell \<times> cell) list \<Rightarrow> error + cell list \<times> cell list" where
  "unzip_pairs lls = (if lls = [] then Inl ValueError else Inr (map fst lls, map snd lls))"

definition load_sheet :: "env \<Rightarrow> string \<Rightarrow> string list \<Rightarrow> (error + frame) \<times> string list" where
  "load_sheet E sheet_name reqs =
     (case read_excel E sheet_name of
        None \<Rightarrow> (Inl ValueError, reqs)
      | Some df0 \<Rightarrow>
          (case bind_err (getitem df0 ''Event Date'')
                  (\<lambda>dates. setitem df0 ''Event Date'' Datetime (map (to_datetime_coerce E dates) dates)) of
             Inl e \<Rightarrow> (Inl e, reqs)
           | Inr df1 \<Rightarrow>
               (case getitem df1 ''Postal Code'' of
                  Inl e \<Rightarrow> (Inl e, reqs)
                | Inr postal \<Rightarrow>
                    (case apply_get_lat_lon E postal reqs of
                       (Inl e, reqs') \<Rightarrow> (Inl e, reqs')
                     | (Inr lls, reqs') \<Rightarrow>
                         (bind_err (unzip_pairs lls)
                            (\<lambda>(lats, lons).
                               bind_err (setitem df1 ''Latitude'' (infer_dtype lats) lats)
                                 (\<lambda>df2. setitem df2 ''Longitude'' (infer_dtype lons) lons)),
                          reqs')))))"

subsection \<open>\<open>update_dashboard\<close>: the date filter (lines 141--145)\<close>

text \<open>Python's truth value of the date picker's property: \<open>None\<close> and \<open>""\<close> are false.\<close>

definition truthy :: "string option \<Rightarrow> bool" where
  "truthy d = (case d of None \<Rightarrow> False | Some s \<Rightarrow> s \<noteq> [])"

text \<open>
  \<open>pd.to_datetime(x)\<close> on one picker value, with the default \<open>errors='raise'\<close>:
  \<open>None\<close> gives \<open>NaT\<close>, a string that does not parse raises.
\<close>

definition to_datetime_scalar :: "env \<Rightarrow> string option \<Rightarrow> error + cell" where
  "to_datetime_scalar E d =
     (case d of
        None \<Rightarrow> Inr Null
      | Some s \<Rightarrow>
          (case to_datetime E [Str s] (Str s) of
             Timestamp t z \<Rightarrow> Inr (Date t z)
           | NaT \<Rightarrow> Inr Null
           | Unparsable \<Rightarrow> Inl ValueError))"

text \<open>
  \<open>>=\<close> and \<open><=\<close> of one value of a datetime column against a timestamp: a comparison
  with \<open>NaT\<close> on either side is false.
\<close>

definition ge_cell :: "cell \<Rightarrow> cell \<Rightarrow> bool" where
  "ge_cell c t = (case (c, t) of (Date d z, Date a z') \<Rightarrow> a \<le> d | _ \<Rightarrow> False)"

definition le_cell :: "cell \<Rightarrow> cell \<Rightarrow> bool" where
  "le_cell c t = (case (c, t) of (Date d z, Date b z') \<Rightarrow> d \<le> b | _ \<Rightarrow> False)"

text \<open>
  pandas orders timestamps with a time zone only against timestamps with a time zone, and
  timestamps without one only against timestamps without one; anything else is a
  \<open>TypeError\<close>. A column without any timestamp counts as one without time zone, and
  \<open>NaT\<close> compares with every column.
\<close>

definition tz_aware :: "cell \<Rightarrow> bool" where
  "tz_aware c = (case c of Date t z \<Rightarrow> z | _ \<Rightarrow> False)"

definition tz_naive :: "cell \<Rightarrow> bool" where
  "tz_naive c = (case c of Date t z \<Rightarrow> \<not> z | _ \<Rightarrow> False)"

definition tz_mismatch :: "cell list \<Rightarrow> cell \<Rightarrow> bool" where
  "tz_mismatch dates t =
     (if tz_aware t then list_ex tz_naive dates \<or> \<not> list_ex tz_aware dates
      else if tz_naive t then list_ex tz_aware dates
      else False)"

definition series_ge :: "cell list \<Rightarrow> cell \<Rightarrow> error + bool list" where
  "series_ge dates t =
     (if tz_mismatch dates t then Inl TypeError else Inr (map (\<lambda>c. ge_cell c t) dates))"

definition series_le :: "cell list \<Rightarrow> cell \<Rightarrow> error + bool list" where
  "series_le dates t =
     (if tz_mismatch dates t then Inl TypeError else Inr (map (\<lambda>c. le_cell c t) dates))"

text \<open>\<open>df[mask]\<close>: the rows at which the mask is true; labels and dtypes stay.\<close>

definition boolean_index :: "frame \<Rightarrow> bool list \<Rightarrow> frame" where
  "boolean_index df keep = df\<lparr>rows := map fst (filter snd (zip (rows df) keep))\<rparr>"

definition date_filter :: "env \<Rightarrow> frame \<Rightarrow> string option \<Rightarrow> string option \<Rightarrow> error + frame" where
  "date_filter E df start_date end_date =
     (if truthy start_date \<and> truthy end_date then
        bind_err (to_datetime_scalar E start_date) (\<lambda>start_ts.
        bind_err (to_datetime_scalar E end_date) (\<lambda>end_ts.
        bind_err (getitem df ''Event Date'') (\<lambda>dates.
        bind_err (setitem df ''Event Date'' Datetime (map (to_datetime_coerce E dates) dates)) (\<lambda>df'.
        bind_err (getitem df' ''Event Date'') (\<lambda>dates'.
        bind_err (series_ge dates' start_ts) (\<lambda>ge.
        bind_err (series_le dates' end_ts) (\<lambda>le.
          Inr (boolean_index df' (map (\<lambda>(x, y). x \<and> y) (zip ge le))))))))))
      else Inr df)"

subsection \<open>\<open>update_dashboard\<close>: statistics, charts, map (lines 147--193)\<close>

text \<open>
  \<open>Series.mean\<close>: the mean of the numbers present, \<open>NaN\<close> when there is none. The
  exact mean stands for the \<open>float64\<close> one.
\<close>

fun numbers :: "cell list \<Rightarrow> rat list" where
  "numbers [] = []"
| "numbers (Num q # cs) = q # numbers cs"
| "numbers (_ # cs) = numbers cs"

definition mean :: "cell list \<Rightarrow> rat option" where
  "mean cs =
     (let xs = numbers cs
      in if xs = [] then None else Some (sum_list xs / of_nat (length xs)))"

text \<open>\<open>df.mean(numeric_only=True)\<close>: one entry per column of numeric dtype.\<close>

definition mean_numeric_only :: "frame \<Rightarrow> (string \<times> rat option) list" where
  "mean_numeric_only df =
     map (\<lambda>(c, t). (c, mean (map (\<lambda>r. r c) (rows df))))
       (filter (\<lambda>(c, t). t = Numeric) (columns df))"

definition lookup_average :: "(string \<times> rat option) list \<Rightarrow> string \<Rightarrow> error + rat option" where
  "lookup_average averages k =
     (case map_of averages k of None \<Rightarrow> Inl (KeyError k) | Some v \<Rightarrow> Inr v)"

text \<open>
  \<open>Series.sum\<close> skips the missing values. A value that is neither missing nor a number
  (a string, a timestamp) ends \<open>update_dashboard\<close> with \<open>TypeError\<close>, in the sum
  itself or in the subtraction that follows it. The exact sum stands for the \<open>int64\<close>
  or \<open>float64\<close> sum of pandas.
\<close>

fun col_sum :: "cell list \<Rightarrow> error + rat" where
  "col_sum [] = Inr 0"
| "col_sum (Null # cs) = col_sum cs"
| "col_sum (Num q # cs) = bind_err (col_sum cs) (\<lambda>s. Inr (q + s))"
| "col_sum (_ # cs) = Inl TypeError"

text \<open>\<open>Series.count\<close>: the number of values that are not missing.\<close>

fun col_count :: "cell list \<Rightarrow> nat" where
  "col_count [] = 0"
| "col_count (Null # cs) = col_count cs"
| "col_count (_ # cs) = Suc (col_count cs)"

text \<open>
  Division of numpy scalars. On a zero divisor numpy does not raise: it gives \<open>nan\<close> or
  an infinity, which is \<open>None\<close> here. Any other quotient is a \<open>float64\<close>, for which
  the exact quotient stands.
\<close>

definition np_divide :: "rat \<Rightarrow> rat \<Rightarrow> rat option" where
  "np_divide a b = (if b = 0 then None else Some (a / b))"

definition attrition_rate :: "nat \<Rightarrow> rat \<Rightarrow> rat option" where
  "attrition_rate total_registrants total_attendance =
     (if total_registrants > 0 then
        map_option (\<lambda>q. q * 100)
          (np_divide (of_nat total_registrants - total_attendance) (of_nat total_registrants))
      else Some 0)"

text \<open>A plotly express chart: the column it draws, and its settings.\<close>

datatype figure = Histogram "cell list" nat string | Pie "cell list" string

definition px_histogram :: "frame \<Rightarrow> string \<Rightarrow> nat \<Rightarrow> string \<Rightarrow> error + figure" where
  "px_histogram df x nbins title =
     (if x \<in> fst ` set (columns df) then Inr (Histogram (map (\<lambda>r. r x) (rows df)) nbins title)
      else Inl ValueError)"

definition px_pie :: "frame \<Rightarrow> string \<Rightarrow> string \<Rightarrow> error + figure" where
  "px_pie df names title =
     (if names \<in> fst ` set (columns df) then Inr (Pie (map (\<lambda>r. r names) (rows df)) title)
      else Inl ValueError)"

text \<open>
  The thirteen outputs of the callback, under the ids of the layout. The attendance row is
  the text of its two cards, the averages row the text of its five; the heatmap is the
  \<open>coordinates\<close> pair of each GeoJSON point feature.
\<close>

record outputs =
  attendance_row :: "string \<times> string"
  averages_row :: "string list"
  age_dist :: figure
  gender_dist :: figure
  race_dist :: figure
  new_neighbors :: figure
  better_know :: figure
  event_rating :: figure
  net_prom :: figure
  mark_dist :: figure
  heatmap :: "(cell \<times> cell) list"
  data_filter_options :: "(string \<times> string) list"
  data_table :: string

definition build_outputs :: "env \<Rightarrow> frame \<Rightarrow> error + outputs" where
  "build_outputs E df =
     (let averages = mean_numeric_only df in
      bind_err (getitem df ''Attendance'') (\<lambda>attendance.
      bind_err (col_sum attendance) (\<lambda>total_attendance.
      let total_registrants = col_count attendance;
          rate = attrition_rate total_registrants total_attendance
      in
      bind_err (lookup_average averages ''Age'') (\<lambda>avg_age.
      bind_err (lookup_average averages ''How many new neighbours met?'') (\<lambda>avg_met.
      bind_err (lookup_average averages ''How much better do you know your neighbours?'') (\<lambda>avg_know.
      bind_err (lookup_average averages ''Rating of the whole event.'') (\<lambda>avg_rating.
      bind_err (lookup_average averages ''How likely are you to promote this event to your friend?'') (\<lambda>avg_prom.
      bind_err (px_histogram df ''Age'' 10 ''Age Distribution'') (\<lambda>age_fig.
      bind_err (px_pie df ''Gender'' ''Gender Distribution'') (\<lambda>gender_fig.
      bind_err (px_pie df ''Race'' ''Racial Distribution'') (\<lambda>race_fig.
      bind_err (px_histogram df ''How many new neighbours met?'' 10 ''New Neighbors Met'') (\<lambda>neighbors_fig.
      bind_err (px_histogram df ''How much better do you know your neighbours?'' 5
                  ''Better Knowledge of Neighbors'') (\<lambda>better_know_fig.
      bind_err (px_histogram df ''Rating of the whole event.'' 10 ''Event Rating'') (\<lambda>event_rating_fig.
      bind_err (px_histogram df ''How likely are you to promote this event to your friend?'' 10
                  ''Net Promoter Score'') (\<lambda>net_prom_fig.
      bind_err (px_pie df ''Marketing'' ''How did you find out about our event?'') (\<lambda>marketing_fig.
      bind_err (getitem df ''Latitude'') (\<lambda>lats.
      bind_err (getitem df ''Longitude'') (\<lambda>lons.
        Inr \<lparr>attendance_row = (format_plain E total_attendance, format_2f E rate @ ''%''),
             averages_row = map (format_2f E) [avg_age, avg_met, avg_know, avg_rating, avg_prom],
             age_dist = age_fig,
             gender_dist = gender_fig,
             race_dist = race_fig,
             new_neighbors = neighbors_fig,
             better_know = better_know_fig,
             event_rating = event_rating_fig,
             net_prom = net_prom_fig,
             mark_dist = marketing_fig,
             heatmap = map (\<lambda>(lat, lon). (lon, lat)) (zip lats lons),
             data_filter_options = map (\<lambda>(c, t). (c, c)) (columns df),
             data_table = ''''\<rparr>))))))))))))))))))"

subsection \<open>\<open>update_dashboard\<close> and its wiring (lines 115--193)\<close>

definition update_dashboard ::
    "env \<Rightarrow> string \<Rightarrow> string option \<Rightarrow> string option \<Rightarrow> string list \<Rightarrow> (error + outputs) \<times> string list" where
  "update_dashboard E sheet_name start_date end_date reqs =
     (case load_sheet E sheet_name reqs of
        (Inl e, reqs') \<Rightarrow> (Inl e, reqs')
      | (Inr df, reqs') \<Rightarrow>
          (bind_err (date_filter E df start_date end_date) (build_outputs E), reqs'))"

text \<open>
  The properties of the page's components that a request can carry. The decorator names
  three of them as \<open>Input\<close>s; the value of the column multi-select \<open>data-filter\<close>
  is no \<open>Input\<close> and no \<open>State\<close>.
\<close>

record page =
  sheet_selector_value :: string
  date_filter_start_date :: "string option"
  date_filter_end_date :: "string option"
  data_filter_value :: "string list"

definition callback :: "env \<Rightarrow> page \<Rightarrow> string list \<Rightarrow> (error + outputs) \<times> string list" where
  "callback E p reqs =
     update_dashboard E (sheet_selector_value p) (date_filter_start_date p)
       (date_filter_end_date p) reqs"

subsection \<open>Notions the properties are stated with\<close>

text \<open>
  A row as \<open>load_sheet\<close> leaves it, given the \<open>Event Date\<close> column of its sheet and
  the coordinates found for it, and the labels of the loaded table.
\<close>

definition loaded_row :: "env \<Rightarrow> cell list \<Rightarrow> row \<Rightarrow> cell \<times> cell \<Rightarrow> row" where
  "loaded_row E dates r ll =
     r(''Event Date'' := to_datetime_coerce E dates (r ''Event Date''),
       ''Latitude'' := fst ll, ''Longitude'' := snd ll)"

definition loaded_columns :: "(string \<times> dtype) list \<Rightarrow> (cell \<times> cell) list \<Rightarrow> (string \<times> dtype) list" where
  "loaded_columns cs lls =
     set_dtype (set_dtype (set_dtype cs ''Event Date'' Datetime)
       ''Latitude'' (infer_dtype (map fst lls))) ''Longitude'' (infer_dtype (map snd lls))"

text \<open>The request \<open>get_lat_lon\<close> sends for a postal code.\<close>

definition request_of :: "env \<Rightarrow> cell \<Rightarrow> string" where
  "request_of E postal_code = search_url (py_str E postal_code)"

text \<open>The geocoding of a postal code succeeds: the service answers with a positive count.\<close>

definition geocoded :: "env \<Rightarrow> cell \<Rightarrow> bool" where
  "geocoded E postal_code =
     (case requests_get_json E (request_of E postal_code) of
        Inl e \<Rightarrow> False
      | Inr resp \<Rightarrow> found resp > 0)"

text \<open>The event timestamp of a row lies between two timestamps, both included.\<close>

definition within_range :: "int \<Rightarrow> int \<Rightarrow> row \<Rightarrow> bool" where
  "within_range a b r =
     (case r ''Event Date'' of Date t z \<Rightarrow> a \<le> t \<and> t \<le> b | _ \<Rightarrow> False)"

text \<open>
  The timestamp of an hour of a day, the days counted from the epoch, and the day that a
  timestamp belongs to.
\<close>

definition ns_per_hour :: int where
  "ns_per_hour = 3600000000000"

definition timestamp_at :: "int \<Rightarrow> int \<Rightarrow> int" where
  "timestamp_at day hour = (day * 24 + hour) * ns_per_hour"

definition date_of :: "int \<Rightarrow> int" where
  "date_of t = t div (24 * ns_per_hour)"

text \<open>
  A value of the \<open>Event Date\<close> column that pandas, converting the column, reads no
  timestamp from.
\<close>

definition unparsable :: "env \<Rightarrow> cell list \<Rightarrow> cell \<Rightarrow> bool" where
  "unparsable E dates c =
     (case c of
        Null \<Rightarrow> False
      | Date t z \<Rightarrow> False
      | _ \<Rightarrow> (case to_datetime E dates c of Timestamp t z \<Rightarrow> False | _ \<Rightarrow> True))"

subsection \<open>A fixture\<close>

text \<open>
  A workbook of two sheets and a geocoding service that knows one postal code. Sheet
  \<open>Survey\<close> has four submissions: one on 5 January 2024 from the known postal code, one
  on 10 February from an unknown one, one whose date is not a date, and one on 15 March from
  the unknown postal code; the dates are text, and the last two rows have a blank
  attendance. Sheet \<open>Workshop\<close> has two submissions, dated by timestamps: one at the
  start of 5 January, and one on 31 January at ten in the morning, with a blank attendance.
  1 January 2024 is day 19723 of the epoch.
\<close>

definition fixture_row :: "cell \<Rightarrow> cell \<Rightarrow> cell \<Rightarrow> row" where
  "fixture_row date postal attendance =
     (\<lambda>c. Null)
       (''Event Date'' := date,
        ''Postal Code'' := postal,
        ''Attendance'' := attendance,
        ''Age'' := Num 30,
        ''How many new neighbours met?'' := Num 2,
        ''How much better do you know your neighbours?'' := Num 3,
        ''Rating of the whole event.'' := Num 4,
        ''How likely are you to promote this event to your friend?'' := Num 5,
        ''Gender'' := Str ''F'',
        ''Race'' := Str ''Malay'',
        ''Marketing'' := Str ''Flyer'')"

definition fixture_rows :: "row list" where
  "fixture_rows =
     [fixture_row (Str ''2024-01-05'') (Num 238801) (Num 1),
      fixture_row (Str ''2024-02-10'') (Num 999999) (Num 0),
      fixture_row (Str ''someday'') (Num 238801) Null,
      fixture_row (Str ''2024-03-15'') (Num 999999) Null]"

definition fixture_workshop_rows :: "row list" where
  "fixture_workshop_rows =
     [fixture_row (Date (timestamp_at 19727 0) False) (Num 238801) (Num 1),
      fixture_row (Date (timestamp_at 19753 10) False) (Num 238801) Null]"

definition fixture_columns :: "(string \<times> dtype) list" where
  "fixture_columns =
     [(''Event Date'', Object),
      (''Postal Code'', Numeric),
      (''Attendance'', Numeric),
      (''Age'', Numeric),
      (''How many new neighbours met?'', Numeric),
      (''How much better do you know your neighbours?'', Numeric),
      (''Rating of the whole event.'', Numeric),
      (''How likely are you to promote this event to your friend?'', Numeric),
      (''Gender'', Object),
      (''Race'', Object),
      (''Marketing'', Object)]"

definition fixture_sheet :: frame where
  "fixture_sheet = \<lparr>columns = fixture_columns, rows = fixture_rows\<rparr>"

definition fixture_workshop :: frame where
  "fixture_workshop =
     \<lparr>columns = set_dtype fixture_columns ''Event Date'' Datetime, rows = fixture_workshop_rows\<rparr>"

definition fixture_workbook :: "string \<Rightarrow> frame option" where
  "fixture_workbook name =
     (if name = ''Survey'' then Some fixture_sheet
      else if name = ''Workshop'' then Some fixture_workshop
      else None)"

text \<open>
  The parser of the fixture reads the dates below in every column; the one with an offset
  is midnight in Singapore, sixteen o'clock of the day before in UTC. The two number
  formats are given for the numbers that the fixture's sheets lead to, whose attendance
  columns have blanks and so hold floats.
\<close>

definition fixture_env :: env where
  "fixture_env =
     \<lparr>read_excel = fixture_workbook,
      to_datetime = (\<lambda>column c.
        if c = Str ''2024-01-05'' then Timestamp (timestamp_at 19727 0) False
        else if c = Str ''2024-01-05T00:00:00+08:00'' then Timestamp (timestamp_at 19726 16) True
        else if c = Str ''2024-01-31'' then Timestamp (timestamp_at 19753 0) False
        else if c = Str ''2024-02-10'' then Timestamp (timestamp_at 19763 0) False
        else if c = Str ''2024-03-01'' then Timestamp (timestamp_at 19783 0) False
        else if c = Str ''2024-03-15'' then Timestamp (timestamp_at 19797 0) False
        else if c = Str ''2024-03-31'' then Timestamp (timestamp_at 19813 0) False
        else if c = Str ''NaT'' then NaT
        else Unparsable),
      requests_get_json = (\<lambda>url.
        if url = search_url ''238801''
        then Inr \<lparr>found = 1, results = [\<lparr>LATITUDE = ''1.3'', LONGITUDE = ''103.8''\<rparr>]\<rparr>
        else Inr \<lparr>found = 0, results = []\<rparr>),
      py_str = (\<lambda>c. case c of Num q \<Rightarrow> (if q = 238801 then ''238801'' else ''999999'')
                       | Str s \<Rightarrow> s | _ \<Rightarrow> ''nan''),
      py_float = (\<lambda>s.
        if s = ''1.3'' then Some (13 / 10)
        else if s = ''103.8'' then Some (1038 / 10)
        else None),
      format_plain = (\<lambda>q. if q = 1 then ''1.0'' else if q = 0 then ''0.0'' else ''#''),
      format_2f = (\<lambda>q.
        if q = None then ''nan''
        else if q = Some 0 then ''0.00''
        else if q = Some 2 then ''2.00''
        else if q = Some 3 then ''3.00''
        else if q = Some 4 then ''4.00''
        else if q = Some 5 then ''5.00''
        else if q = Some 30 then ''30.00''
        else if q = Some 50 then ''50.00''
        else ''#'')\<rparr>"

text \<open>
  The requests that loading sheet \<open>Survey\<close> sends, the table \<open>load_sheet\<close> makes of
  a sheet, and the page of a browser that has picked no dates.
\<close>

definition fixture_requests :: "string list" where
  "fixture_requests =
     [search_url ''238801'', search_url ''999999'', search_url ''238801'', search_url ''999999'']"

definition fixture_loaded :: "string \<Rightarrow> frame" where
  "fixture_loaded name = projr (fst (load_sheet fixture_env name []))"

definition fixture_page :: page where
  "fixture_page =
     \<lparr>sheet_selector_value = ''Survey'',
      date_filter_start_date = None,
      date_filter_end_date = None,
      data_filter_value = []\<rparr>"

section \<open>Properties of the load\<close>

lemma bind_err_Inl [simp]: "bind_err (Inl e) f = Inl e"
  by (simp add: bind_err_def)

lemma bind_err_Inr [simp]: "bind_err (Inr x) f = f x"
  by (simp add: bind_err_def)

lemma bind_err_eq_Inr: "bind_err m f = Inr y \<longleftrightarrow> (\<exists>x. m = Inr x \<and> f x = Inr y)"
  by (cases m) simp_all

lemma get_lat_lon_snd: "snd (get_lat_lon E p reqs) = reqs @ [search_url (py_str E p)]"
  by (simp add: get_lat_lon_def Let_def split: sum.splits list.splits option.splits)

lemma get_lat_lon_fst: "fst (get_lat_lon E p reqs) = fst (get_lat_lon E p [])"
  by (simp add: get_lat_lon_def Let_def split: sum.splits list.splits option.splits)

lemma get_lat_lon_eq:
  "get_lat_lon E p reqs = (fst (get_lat_lon E p []), reqs @ [search_url (py_str E p)])"
  using get_lat_lon_snd [of E p reqs] get_lat_lon_fst [of E p reqs]
  by (metis prod.collapse)

lemma apply_get_lat_lon_Inr:
  "apply_get_lat_lon E ps reqs = (Inr lls, reqs') \<Longrightarrow>
     reqs' = reqs @ map (\<lambda>p. search_url (py_str E p)) ps \<and>
     list_all2 (\<lambda>p ll. fst (get_lat_lon E p []) = Inr ll) ps lls"
proof (induction ps arbitrary: reqs lls)
  case Nil
  then show ?case by simp
next
  case (Cons p ps)
  obtain ll where ll: "fst (get_lat_lon E p []) = Inr ll"
    using Cons.prems by (subst (asm) apply_get_lat_lon.simps, subst (asm) get_lat_lon_eq)
      (cases "fst (get_lat_lon E p [])"; simp)
  obtain lls' where rest: "apply_get_lat_lon E ps (reqs @ [search_url (py_str E p)]) = (Inr lls', reqs')"
    and lls: "lls = ll # lls'"
    using Cons.prems ll
    by (subst (asm) apply_get_lat_lon.simps, subst (asm) get_lat_lon_eq)
      (auto split: prod.splits sum.splits)
  from Cons.IH [OF rest] ll lls show ?case by simp
qed


lemma labels_set_dtype: "fst ` set (set_dtype cs c t) = insert c (fst ` set cs)"
  by (induction cs c t rule: set_dtype.induct) auto

lemma map_of_set_dtype: "map_of (set_dtype cs c t) c' = (if c' = c then Some t else map_of cs c')"
  by (induction cs c t rule: set_dtype.induct) auto

lemma set_dtype_same: "map_of cs c = Some t \<Longrightarrow> set_dtype cs c t = cs"
  by (induction cs c t rule: set_dtype.induct) (auto split: if_splits)

lemma apply_get_lat_lon_length:
  "apply_get_lat_lon E ps reqs = (Inr lls, reqs') \<Longrightarrow> length lls = length ps"
  using apply_get_lat_lon_Inr [of E ps reqs lls reqs'] by (auto dest: list_all2_lengthD)

lemma map_zip_map_self: "map (\<lambda>(r, v). g r v) (zip rs (map f rs)) = map (\<lambda>r. g r (f r)) rs"
  by (induction rs) simp_all

lemma map_zip_twice:
  "length lls = length rs \<Longrightarrow>
   map (\<lambda>(r, v). r(c2 := v)) (zip (map (\<lambda>(r, v). r(c1 := v)) (zip (map h rs) (map fst lls))) (map snd lls))
   = map (\<lambda>(r, ll). (h r)(c1 := fst ll, c2 := snd ll)) (zip rs lls)"
  by (induction lls rs rule: list_induct2) simp_all

lemma load_sheet_unfold:
  "load_sheet E s reqs =
     (case read_excel E s of
        None \<Rightarrow> (Inl ValueError, reqs)
      | Some df0 \<Rightarrow>
          if ''Event Date'' \<notin> fst ` set (columns df0) then (Inl (KeyError ''Event Date''), reqs)
          else if ''Postal Code'' \<notin> fst ` set (columns df0) then (Inl (KeyError ''Postal Code''), reqs)
          else (case apply_get_lat_lon E (map (\<lambda>r. r ''Postal Code'') (rows df0)) reqs of
                  (Inl e, reqs') \<Rightarrow> (Inl e, reqs')
                | (Inr lls, reqs') \<Rightarrow>
                    if lls = [] then (Inl ValueError, reqs')
                    else (Inr \<lparr>columns = loaded_columns (columns df0) lls,
                               rows = map (\<lambda>(r, ll). loaded_row E (map (\<lambda>r. r ''Event Date'') (rows df0)) r ll) (zip (rows df0) lls)\<rparr>,
                          reqs')))"
proof (cases "read_excel E s")
  case None
  then show ?thesis by (simp add: load_sheet_def)
next
  case (Some df0)
  let ?dates = "map (\<lambda>r. r ''Event Date'') (rows df0)"
  let ?rows1 = "map (\<lambda>r. r(''Event Date'' := to_datetime_coerce E ?dates (r ''Event Date''))) (rows df0)"
  let ?df1 = "\<lparr>columns = set_dtype (columns df0) ''Event Date'' Datetime, rows = ?rows1\<rparr>"
  have zip1: "map (\<lambda>(r, v). r(''Event Date'' := v))
                (zip (rows df0) (map (to_datetime_coerce E ?dates) ?dates))
              = ?rows1"
    using map_zip_map_self [of "\<lambda>r v. r(''Event Date'' := v)" "rows df0"
        "\<lambda>r. to_datetime_coerce E ?dates (r ''Event Date'')"]
    by (simp add: comp_def)
  have postal: "map (\<lambda>r. r ''Postal Code'') ?rows1 = map (\<lambda>r. r ''Postal Code'') (rows df0)"
    by simp
  show ?thesis
  proof (cases "''Event Date'' \<in> fst ` set (columns df0)")
    case False
    with Some show ?thesis by (simp add: load_sheet_def getitem_def)
  next
    case ed: True
    then have step1: "bind_err (getitem df0 ''Event Date'')
        (\<lambda>dates. setitem df0 ''Event Date'' Datetime (map (to_datetime_coerce E dates) dates)) = Inr ?df1"
    proof -
      have "getitem df0 ''Event Date'' = Inr ?dates"
        using ed by (simp add: getitem_def)
      moreover have "setitem df0 ''Event Date'' Datetime
          (map (to_datetime_coerce E ?dates) ?dates) = Inr ?df1"
        unfolding setitem_def zip1 by simp
      ultimately show ?thesis by (simp only: bind_err_Inr)
    qed
    show ?thesis
    proof (cases "''Postal Code'' \<in> fst ` set (columns df0)")
      case False
      with Some ed step1 show ?thesis
        by (simp add: load_sheet_def getitem_def labels_set_dtype)
    next
      case pc: True
      then have step2: "getitem ?df1 ''Postal Code'' = Inr (map (\<lambda>r. r ''Postal Code'') (rows df0))"
        unfolding getitem_def using postal by (simp add: labels_set_dtype)
      obtain res reqs' where ap: "apply_get_lat_lon E (map (\<lambda>r. r ''Postal Code'') (rows df0)) reqs = (res, reqs')"
        by (cases "apply_get_lat_lon E (map (\<lambda>r. r ''Postal Code'') (rows df0)) reqs")
      show ?thesis
      proof (cases res)
        case (Inl e)
        with Some ed pc step1 step2 ap show ?thesis by (simp add: load_sheet_def)
      next
        case (Inr lls)
        have len: "length lls = length (rows df0)"
          using apply_get_lat_lon_length [of E _ reqs lls reqs'] ap Inr by simp
        have zip2: "map (\<lambda>(r, v). r(''Longitude'' := v))
                (zip (map (\<lambda>(r, v). r(''Latitude'' := v)) (zip ?rows1 (map fst lls))) (map snd lls))
              = map (\<lambda>(r, ll). loaded_row E (map (\<lambda>r. r ''Event Date'') (rows df0)) r ll) (zip (rows df0) lls)"
          using map_zip_twice [OF len, of "''Longitude''" "''Latitude''"
              "\<lambda>r. r(''Event Date'' := to_datetime_coerce E ?dates (r ''Event Date''))"]
          by (simp add: loaded_row_def [abs_def])
        have lens: "length (map fst lls) = length ?rows1" "length (map snd lls) = length ?rows1"
          using len by simp_all
        have set2: "setitem ?df1 ''Latitude'' (infer_dtype (map fst lls)) (map fst lls)
            = Inr \<lparr>columns = set_dtype (set_dtype (columns df0) ''Event Date'' Datetime)
                       ''Latitude'' (infer_dtype (map fst lls)),
                     rows = map (\<lambda>(r, v). r(''Latitude'' := v)) (zip ?rows1 (map fst lls))\<rparr>"
          unfolding setitem_def using len by simp
        have set3: "setitem \<lparr>columns = set_dtype (set_dtype (columns df0) ''Event Date'' Datetime)
                       ''Latitude'' (infer_dtype (map fst lls)),
                     rows = map (\<lambda>(r, v). r(''Latitude'' := v)) (zip ?rows1 (map fst lls))\<rparr>
                   ''Longitude'' (infer_dtype (map snd lls)) (map snd lls)
            = Inr \<lparr>columns = loaded_columns (columns df0) lls,
                     rows = map (\<lambda>(r, ll). loaded_row E (map (\<lambda>r. r ''Event Date'') (rows df0)) r ll) (zip (rows df0) lls)\<rparr>"
          unfolding setitem_def frame.select_convs zip2 loaded_columns_def using len by simp
        show ?thesis
        proof (cases "lls = []")
          case True
          then have "unzip_pairs lls = Inl ValueError"
            by (simp add: unzip_pairs_def)
          with Some ed pc ap Inr True show ?thesis
            by (simp only: load_sheet_def step1 step2 bind_err_Inl
                option.case sum.case prod.case if_True if_False simp_thms)
        next
          case False
          then have "unzip_pairs lls = Inr (map fst lls, map snd lls)"
            by (simp add: unzip_pairs_def)
          with Some ed pc ap Inr False show ?thesis
            by (simp only: load_sheet_def step1 step2 set2 set3 bind_err_Inr
                option.case sum.case prod.case if_True if_False simp_thms)
        qed
      qed
    qed
  qed
qed



lemma load_sheet_Inr:
  assumes "load_sheet E s reqs = (Inr df, reqs')"
  obtains df0 lls where
    "read_excel E s = Some df0"
    "''Event Date'' \<in> fst ` set (columns df0)"
    "''Postal Code'' \<in> fst ` set (columns df0)"
    "apply_get_lat_lon E (map (\<lambda>r. r ''Postal Code'') (rows df0)) reqs = (Inr lls, reqs')"
    "lls \<noteq> []"
    "df = \<lparr>columns = loaded_columns (columns df0) lls,
           rows = map (\<lambda>(r, ll). loaded_row E (map (\<lambda>r. r ''Event Date'') (rows df0)) r ll) (zip (rows df0) lls)\<rparr>"
  using assms unfolding load_sheet_unfold
  by (auto split: option.splits if_splits prod.splits sum.splits)

lemma get_lat_lon_present:
  assumes "fst (get_lat_lon E p reqs) = Inr (lat, lon)"
  shows "(lat \<noteq> Null \<longleftrightarrow> geocoded E p) \<and> (lon \<noteq> Null \<longleftrightarrow> geocoded E p)"
  using assms
  by (auto simp: get_lat_lon_def geocoded_def request_of_def Let_def
      split: sum.splits list.splits option.splits if_splits)

lemma loaded_row_simps:
  "loaded_row E dates r ll ''Latitude'' = fst ll"
  "loaded_row E dates r ll ''Longitude'' = snd ll"
  "loaded_row E dates r ll ''Postal Code'' = r ''Postal Code''"
  "loaded_row E dates r ll ''Event Date'' = to_datetime_coerce E dates (r ''Event Date'')"
  by (simp_all add: loaded_row_def)

lemma to_datetime_coerce_idem:
  "to_datetime_coerce E dates' (to_datetime_coerce E dates c) = to_datetime_coerce E dates c"
  by (simp add: to_datetime_coerce_def split: cell.splits parsed.splits)

lemma loaded_rows:
  assumes "load_sheet E s reqs = (Inr df, reqs')" and "r \<in> set (rows df)"
  shows "(r ''Latitude'' \<noteq> Null \<longleftrightarrow> geocoded E (r ''Postal Code''))"
    and "(r ''Longitude'' \<noteq> Null \<longleftrightarrow> geocoded E (r ''Postal Code''))"
    and "to_datetime_coerce E dates (r ''Event Date'') = r ''Event Date''"
proof -
  from assms(1) obtain df0 lls where
    "read_excel E s = Some df0"
    "''Event Date'' \<in> fst ` set (columns df0)"
    "''Postal Code'' \<in> fst ` set (columns df0)"
    and ap: "apply_get_lat_lon E (map (\<lambda>r. r ''Postal Code'') (rows df0)) reqs = (Inr lls, reqs')"
    and "lls \<noteq> []"
    and df: "df = \<lparr>columns = loaded_columns (columns df0) lls,
           rows = map (\<lambda>(r, ll). loaded_row E (map (\<lambda>r. r ''Event Date'') (rows df0)) r ll) (zip (rows df0) lls)\<rparr>"
    by (rule load_sheet_Inr)
  from assms(2) df obtain r0 ll where mem: "(r0, ll) \<in> set (zip (rows df0) lls)"
    and r: "r = loaded_row E (map (\<lambda>r. r ''Event Date'') (rows df0)) r0 ll"
    by auto
  from apply_get_lat_lon_Inr [OF ap]
  have "list_all2 (\<lambda>r ll. fst (get_lat_lon E (r ''Postal Code'') []) = Inr ll) (rows df0) lls"
    by (simp add: list_all2_map1)
  with mem have "fst (get_lat_lon E (r0 ''Postal Code'') []) = Inr (fst ll, snd ll)"
    by (auto simp: list_all2_iff)
  from get_lat_lon_present [OF this] r
  show "(r ''Latitude'' \<noteq> Null \<longleftrightarrow> geocoded E (r ''Postal Code''))"
    and "(r ''Longitude'' \<noteq> Null \<longleftrightarrow> geocoded E (r ''Postal Code''))"
    by (simp_all add: loaded_row_simps)
  from r show "to_datetime_coerce E dates (r ''Event Date'') = r ''Event Date''"
    by (simp add: loaded_row_simps to_datetime_coerce_idem)
qed

lemma loaded_labels:
  assumes "load_sheet E s reqs = (Inr df, reqs')" and "read_excel E s = Some df0"
  shows "fst ` set (columns df) = insert ''Longitude'' (insert ''Latitude'' (fst ` set (columns df0)))"
    and "map_of (columns df) ''Event Date'' = Some Datetime"
    and "length (rows df) = length (rows df0)"
proof -
  from assms(1) obtain df0' lls where
    rd: "read_excel E s = Some df0'" and ed: "''Event Date'' \<in> fst ` set (columns df0')"
    and "''Postal Code'' \<in> fst ` set (columns df0')"
    and ap: "apply_get_lat_lon E (map (\<lambda>r. r ''Postal Code'') (rows df0')) reqs = (Inr lls, reqs')"
    and "lls \<noteq> []"
    and df: "df = \<lparr>columns = loaded_columns (columns df0') lls,
           rows = map (\<lambda>(r, ll). loaded_row E (map (\<lambda>r. r ''Event Date'') (rows df0')) r ll) (zip (rows df0') lls)\<rparr>"
    by (rule load_sheet_Inr)
  from rd assms(2) have eq: "df0' = df0" by simp
  from df eq ed show "fst ` set (columns df) = insert ''Longitude'' (insert ''Latitude'' (fst ` set (columns df0)))"
    by (auto simp: loaded_columns_def labels_set_dtype)
  from df show "map_of (columns df) ''Event Date'' = Some Datetime"
    by (simp add: loaded_columns_def map_of_set_dtype)
  from apply_get_lat_lon_length [OF ap] df eq show "length (rows df) = length (rows df0)"
    by simp
qed

lemma filter_by_two_masks:
  "map fst (filter snd (zip xs (map (\<lambda>(x, y). x \<and> y) (zip (map p xs) (map q xs)))))
   = filter (\<lambda>x. p x \<and> q x) xs"
  by (induction xs) simp_all

lemma map_of_labels: "map_of cs c = Some t \<Longrightarrow> c \<in> fst ` set cs"
  by (induction cs) (auto split: if_splits)

lemma setitem_same:
  "(\<And>r. r \<in> set rs \<Longrightarrow> f (r c) = r c) \<Longrightarrow>
   map (\<lambda>(r, v). r(c := v)) (zip rs (map f (map (\<lambda>r. r c) rs))) = rs"
  by (induction rs) simp_all

lemma boolean_index_rows:
  "columns (boolean_index df keep) = columns df"
  "set (rows (boolean_index df keep)) \<subseteq> set (rows df)"
proof -
  show "columns (boolean_index df keep) = columns df"
    by (simp add: boolean_index_def)
  have "set (map fst (filter snd (zip xs keep))) \<subseteq> set xs" for xs :: "row list"
    by (auto dest: set_zip_leftD)
  then show "set (rows (boolean_index df keep)) \<subseteq> set (rows df)"
    by (simp add: boolean_index_def)
qed

lemma date_filter_unfold:
  assumes cols: "map_of (columns df) ''Event Date'' = Some Datetime"
    and coerced: "\<And>r dates. r \<in> set (rows df) \<Longrightarrow> to_datetime_coerce E dates (r ''Event Date'') = r ''Event Date''"
    and tr: "truthy sd" "truthy ed"
  shows "date_filter E df sd ed =
     bind_err (to_datetime_scalar E sd) (\<lambda>start_ts.
     bind_err (to_datetime_scalar E ed) (\<lambda>end_ts.
     bind_err (series_ge (map (\<lambda>r. r ''Event Date'') (rows df)) start_ts) (\<lambda>ge.
     bind_err (series_le (map (\<lambda>r. r ''Event Date'') (rows df)) end_ts) (\<lambda>le.
       Inr (boolean_index df (map (\<lambda>(x, y). x \<and> y) (zip ge le)))))))"
proof -
  let ?dates = "map (\<lambda>r. r ''Event Date'') (rows df)"
  have lab: "''Event Date'' \<in> fst ` set (columns df)"
    using cols by (rule map_of_labels)
  have get1: "getitem df ''Event Date'' = Inr ?dates"
    using lab by (simp add: getitem_def)
  have same: "map (\<lambda>(r, v). r(''Event Date'' := v))
      (zip (rows df) (map (to_datetime_coerce E ?dates) ?dates)) = rows df"
    using coerced by (rule setitem_same)
  have set1: "setitem df ''Event Date'' Datetime (map (to_datetime_coerce E ?dates) ?dates) = Inr df"
    unfolding setitem_def same set_dtype_same [OF cols] by simp
  show ?thesis
    unfolding date_filter_def
    by (simp only: tr get1 set1 bind_err_Inr if_True simp_thms)
qed

lemma ge_le_within:
  "(\<lambda>r. ge_cell (r ''Event Date'') (Date a za) \<and> le_cell (r ''Event Date'') (Date b zb))
     = within_range a b"
  by (auto simp: fun_eq_iff ge_cell_def le_cell_def within_range_def split: cell.splits)

lemma date_filter_coerced:
  assumes cols: "map_of (columns df) ''Event Date'' = Some Datetime"
    and coerced: "\<And>r dates. r \<in> set (rows df) \<Longrightarrow> to_datetime_coerce E dates (r ''Event Date'') = r ''Event Date''"
    and x: "x \<noteq> []" "to_datetime E [Str x] (Str x) = Timestamp a za"
    and y: "y \<noteq> []" "to_datetime E [Str y] (Str y) = Timestamp b zb"
  shows "date_filter E df (Some x) (Some y) =
    (if tz_mismatch (map (\<lambda>r. r ''Event Date'') (rows df)) (Date a za)
        \<or> tz_mismatch (map (\<lambda>r. r ''Event Date'') (rows df)) (Date b zb)
     then Inl TypeError
     else Inr (df\<lparr>rows := filter (within_range a b) (rows df)\<rparr>))"
proof -
  let ?dates = "map (\<lambda>r. r ''Event Date'') (rows df)"
  have ts: "to_datetime_scalar E (Some x) = Inr (Date a za)"
    "to_datetime_scalar E (Some y) = Inr (Date b zb)"
    using x y by (simp_all add: to_datetime_scalar_def)
  have tr: "truthy (Some x)" "truthy (Some y)"
    using x y by (simp_all add: truthy_def)
  have keep: "map fst (filter snd (zip (rows df)
       (map (\<lambda>(x, y). x \<and> y)
          (zip (map (\<lambda>c. ge_cell c (Date a za)) ?dates) (map (\<lambda>c. le_cell c (Date b zb)) ?dates)))))
     = filter (within_range a b) (rows df)"
    using filter_by_two_masks [of "rows df" "\<lambda>r. ge_cell (r ''Event Date'') (Date a za)"
        "\<lambda>r. le_cell (r ''Event Date'') (Date b zb)"]
    by (simp add: ge_le_within comp_def)
  have unf: "date_filter E df (Some x) (Some y) =
     bind_err (series_ge ?dates (Date a za)) (\<lambda>ge.
     bind_err (series_le ?dates (Date b zb)) (\<lambda>le.
       Inr (boolean_index df (map (\<lambda>(x, y). x \<and> y) (zip ge le)))))"
    using cols coerced tr
    by (subst date_filter_unfold [where E = E]) (simp_all only: ts bind_err_Inr)
  show ?thesis
  proof (cases "tz_mismatch ?dates (Date a za)")
    case True
    then show ?thesis
      unfolding unf by (simp add: series_ge_def)
  next
    case ma: False
    show ?thesis
    proof (cases "tz_mismatch ?dates (Date b zb)")
      case True
      with ma show ?thesis
        unfolding unf by (simp add: series_ge_def series_le_def)
    next
      case False
      with ma show ?thesis
        unfolding unf
        by (simp only: series_ge_def series_le_def if_False bind_err_Inr boolean_index_def keep simp_thms)
    qed
  qed
qed

section \<open>Properties of the callback\<close>

lemma getitem_eq_Inr:
  "getitem df c = Inr vs \<longleftrightarrow> c \<in> fst ` set (columns df) \<and> vs = map (\<lambda>r. r c) (rows df)"
  by (auto simp: getitem_def)

lemma swap_zip_columns:
  "map (\<lambda>(lat, lon). (lon, lat)) (zip (map f rs) (map g rs)) = map (\<lambda>r. (g r, f r)) rs"
  by (induction rs) simp_all

lemma build_outputs_Inr:
  assumes "build_outputs E df = Inr out"
  obtains tot where
    "''Attendance'' \<in> fst ` set (columns df)"
    "col_sum (map (\<lambda>r. r ''Attendance'') (rows df)) = Inr tot"
    "attendance_row out =
       (format_plain E tot,
        format_2f E (attrition_rate (col_count (map (\<lambda>r. r ''Attendance'') (rows df))) tot) @ ''%'')"
    "heatmap out = map (\<lambda>r. (r ''Longitude'', r ''Latitude'')) (rows df)"
    "data_table out = ''''"
proof -
  from assms obtain att tot lats lons where
    att: "getitem df ''Attendance'' = Inr att" and tot: "col_sum att = Inr tot"
    and lats: "getitem df ''Latitude'' = Inr lats" and lons: "getitem df ''Longitude'' = Inr lons"
    and row: "attendance_row out =
       (format_plain E tot, format_2f E (attrition_rate (col_count att) tot) @ ''%'')"
    and hm: "heatmap out = map (\<lambda>(lat, lon). (lon, lat)) (zip lats lons)"
    and dt: "data_table out = ''''"
    unfolding build_outputs_def Let_def bind_err_eq_Inr by auto
  from att tot row lats lons hm dt show thesis
    by (intro that [of tot]) (auto simp: getitem_eq_Inr swap_zip_columns)
qed

lemma update_dashboard_Inr:
  assumes "update_dashboard E s sd ed reqs = (Inr out, reqs')"
  obtains df0 df where
    "load_sheet E s reqs = (Inr df0, reqs')"
    "date_filter E df0 sd ed = Inr df"
    "build_outputs E df = Inr out"
  using assms unfolding update_dashboard_def
  by (auto simp: bind_err_eq_Inr split: prod.splits sum.splits)

lemma update_dashboard_loaded:
  "load_sheet E s reqs = (Inr df0, reqs') \<Longrightarrow>
   update_dashboard E s sd ed reqs = (bind_err (date_filter E df0 sd ed) (build_outputs E), reqs')"
  by (simp add: update_dashboard_def)

lemma col_count_filter: "col_count cs = length (filter (\<lambda>c. c \<noteq> Null) cs)"
  by (induction cs rule: col_count.induct) simp_all

lemma attrition_rate_zero: "attrition_rate 0 t = Some 0"
  by (simp add: attrition_rate_def)

text \<open>
  Claim C8. When no value of the \<open>Attendance\<close> column of the filtered record set is
  present, the attrition card shows the rate 0. The rate for 0 registrants is 0 without a
  division, and the division never meets a zero divisor: \<open>attrition_rate\<close> is never the
  \<open>None\<close> that \<open>np_divide\<close> gives for one.
\<close>

theorem attrition_guard:
  assumes "load_sheet E s reqs = (Inr df0, reqs')"
    and "date_filter E df0 sd ed = Inr df"
    and "update_dashboard E s sd ed reqs = (Inr out, reqs'')"
    and "filter (\<lambda>c. c \<noteq> Null) (map (\<lambda>r. r ''Attendance'') (rows df)) = []"
  shows "snd (attendance_row out) = format_2f E (Some 0) @ ''%''
    \<and> attrition_rate 0 tot = Some 0
    \<and> (\<forall>n t. attrition_rate n t \<noteq> None)"
proof -
  from assms(1,2,3) have "build_outputs E df = Inr out"
    by (simp add: update_dashboard_loaded)
  then obtain t where
    "attendance_row out =
       (format_plain E t,
        format_2f E (attrition_rate (col_count (map (\<lambda>r. r ''Attendance'') (rows df))) t) @ ''%'')"
    by (rule build_outputs_Inr)
  moreover have "col_count (map (\<lambda>r. r ''Attendance'') (rows df)) = 0"
    using assms(4) by (simp add: col_count_filter)
  ultimately have "snd (attendance_row out) = format_2f E (Some 0) @ ''%''"
    by (simp add: attrition_rate_zero)
  moreover have "attrition_rate n t \<noteq> None" for n t
    by (simp add: attrition_rate_def np_divide_def)
  ultimately show ?thesis
    by (simp add: attrition_rate_zero)
qed

text \<open>
  Claim C7. The value of the column multi-select does not reach the callback, and whenever
  the callback returns its outputs, the data table is the empty string.
\<close>

theorem data_table_empty:
  "callback E (p\<lparr>data_filter_value := v\<rparr>) reqs = callback E p reqs
   \<and> (callback E p reqs = (Inr out, reqs') \<longrightarrow> data_table out = '''')"
proof -
  have "data_table out = ''''" if "callback E p reqs = (Inr out, reqs')"
  proof -
    from that obtain df where "build_outputs E df = Inr out"
      unfolding callback_def by (rule update_dashboard_Inr)
    then show ?thesis by (rule build_outputs_Inr)
  qed
  then show ?thesis by (simp add: callback_def)
qed

text \<open>
  Claim C9. When the start date or the end date is absent, the date filter returns the
  record set as it is, and \<open>update_dashboard\<close> builds all its outputs from the full
  table that \<open>load_sheet\<close> returned.
\<close>

theorem no_filter_without_both_dates:
  assumes "sd = None \<or> ed = None"
  shows "date_filter E df sd ed = Inr df
    \<and> update_dashboard E s sd ed reqs =
        (case load_sheet E s reqs of
           (Inl e, reqs') \<Rightarrow> (Inl e, reqs')
         | (Inr df0, reqs') \<Rightarrow> (build_outputs E df0, reqs'))"
proof -
  have f: "date_filter E df' sd ed = Inr df'" for df'
    using assms by (auto simp: date_filter_def truthy_def)
  then show ?thesis
    by (simp add: update_dashboard_def split: prod.splits sum.splits)
qed

lemma date_filter_off: "\<not> (truthy sd \<and> truthy ed) \<Longrightarrow> date_filter E df sd ed = Inr df"
  by (auto simp: date_filter_def)

lemma date_filter_loaded:
  assumes load: "load_sheet E s reqs = (Inr df0, reqs')"
    and filt: "date_filter E df0 sd ed = Inr df"
  shows "columns df = columns df0" and "set (rows df) \<subseteq> set (rows df0)"
proof -
  have "columns df = columns df0 \<and> set (rows df) \<subseteq> set (rows df0)"
  proof (cases "truthy sd \<and> truthy ed")
    case False
    with filt show ?thesis by (simp add: date_filter_off)
  next
    case True
    obtain df00 where "read_excel E s = Some df00"
      using load by (rule load_sheet_Inr)
    with load have cols: "map_of (columns df0) ''Event Date'' = Some Datetime"
      by (rule loaded_labels)
    have "date_filter E df0 sd ed =
       bind_err (to_datetime_scalar E sd) (\<lambda>start_ts.
       bind_err (to_datetime_scalar E ed) (\<lambda>end_ts.
       bind_err (series_ge (map (\<lambda>r. r ''Event Date'') (rows df0)) start_ts) (\<lambda>ge.
       bind_err (series_le (map (\<lambda>r. r ''Event Date'') (rows df0)) end_ts) (\<lambda>le.
         Inr (boolean_index df0 (map (\<lambda>(x, y). x \<and> y) (zip ge le)))))))"
      using cols loaded_rows(3) [OF load] True
      by (intro date_filter_unfold) simp_all
    with filt obtain keep where "df = boolean_index df0 keep"
      by (auto simp: bind_err_eq_Inr)
    then show ?thesis
      using boolean_index_rows [of df0 keep] by simp
  qed
  then show "columns df = columns df0" and "set (rows df) \<subseteq> set (rows df0)"
    by simp_all
qed

lemma get_lat_lon_parser: "get_lat_lon (E\<lparr>to_datetime := f\<rparr>) p reqs = get_lat_lon E p reqs"
  by (simp add: get_lat_lon_def Let_def cong: sum.case_cong list.case_cong option.case_cong if_cong)

lemma apply_get_lat_lon_parser:
  "apply_get_lat_lon (E\<lparr>to_datetime := f\<rparr>) ps reqs = apply_get_lat_lon E ps reqs"
  by (induction ps arbitrary: reqs) (simp_all add: get_lat_lon_parser split: prod.splits sum.splits)

lemma load_sheet_requests:
  assumes "read_excel E s = Some df0" and "load_sheet E s reqs = (Inr df, reqs')"
  shows "reqs' = reqs @ map (\<lambda>r. request_of E (r ''Postal Code'')) (rows df0)"
proof -
  from assms(2) obtain df0' lls where "read_excel E s = Some df0'"
    "''Event Date'' \<in> fst ` set (columns df0')"
    "''Postal Code'' \<in> fst ` set (columns df0')"
    "apply_get_lat_lon E (map (\<lambda>r. r ''Postal Code'') (rows df0')) reqs = (Inr lls, reqs')"
    by (rule load_sheet_Inr)
  with assms(1) have "apply_get_lat_lon E (map (\<lambda>r. r ''Postal Code'') (rows df0)) reqs = (Inr lls, reqs')"
    by simp
  from apply_get_lat_lon_Inr [OF this] show ?thesis
    by (simp add: request_of_def comp_def)
qed

text \<open>
  Claim C2. When the service answers with a positive \<open>found\<close> count, \<open>get_lat_lon\<close>
  returns the latitude and longitude of the first result; when the count is not positive, it
  returns \<open>(None, None)\<close>. In every row of the table that \<open>load_sheet\<close> returns,
  \<open>Latitude\<close> is present exactly when the geocoding of that row's postal code succeeded,
  and so is \<open>Longitude\<close>: after a failed lookup both are absent.
\<close>

theorem geocoding_result:
  "(requests_get_json E (request_of E p) = Inr resp \<longrightarrow> 0 < found resp \<longrightarrow>
      results resp = hit # hits \<longrightarrow> py_float E (LATITUDE hit) = Some la \<longrightarrow>
      py_float E (LONGITUDE hit) = Some lo \<longrightarrow>
      get_lat_lon E p reqs = (Inr (Num la, Num lo), reqs @ [request_of E p]))
   \<and> (requests_get_json E (request_of E p) = Inr resp \<longrightarrow> \<not> 0 < found resp \<longrightarrow>
      get_lat_lon E p reqs = (Inr (Null, Null), reqs @ [request_of E p]))
   \<and> (load_sheet E s reqs = (Inr df, reqs') \<longrightarrow>
      (\<forall>r \<in> set (rows df).
         (r ''Latitude'' \<noteq> Null \<longleftrightarrow> geocoded E (r ''Postal Code''))
       \<and> (r ''Longitude'' \<noteq> Null \<longleftrightarrow> geocoded E (r ''Postal Code''))))"
proof (intro conjI impI ballI)
  assume "requests_get_json E (request_of E p) = Inr resp" "0 < found resp"
    "results resp = hit # hits" "py_float E (LATITUDE hit) = Some la"
    "py_float E (LONGITUDE hit) = Some lo"
  then show "get_lat_lon E p reqs = (Inr (Num la, Num lo), reqs @ [request_of E p])"
    by (simp add: get_lat_lon_def request_of_def)
next
  assume "requests_get_json E (request_of E p) = Inr resp" "\<not> 0 < found resp"
  then show "get_lat_lon E p reqs = (Inr (Null, Null), reqs @ [request_of E p])"
    by (simp add: get_lat_lon_def request_of_def)
next
  fix r
  assume "load_sheet E s reqs = (Inr df, reqs')" "r \<in> set (rows df)"
  then show "(r ''Latitude'' \<noteq> Null) = geocoded E (r ''Postal Code'')"
    by (rule loaded_rows(1))
next
  fix r
  assume "load_sheet E s reqs = (Inr df, reqs')" "r \<in> set (rows df)"
  then show "(r ''Longitude'' \<noteq> Null) = geocoded E (r ''Postal Code'')"
    by (rule loaded_rows(2))
qed

text \<open>
  Claim C3, amended. With a start and an end date selected, \<open>update_dashboard\<close> compares
  timestamps, not days. When the selected dates and the \<open>Event Date\<close> column agree on
  carrying a time zone, the date filter keeps, of the loaded rows and in their order, exactly
  those whose \<open>Event Date\<close> timestamp \<open>t\<close> satisfies \<open>a \<le> t \<le> b\<close>, where \<open>a\<close>
  and \<open>b\<close> are the timestamps read from the start and from the end date; the outputs are
  built from these rows. So a timestamp equal to either bound stays, a timestamp outside
  goes, also one later on the day of the end date, and a row without a date goes. When they
  do not agree, the comparison raises \<open>TypeError\<close> and there are no outputs.
\<close>

theorem date_range_by_timestamp:
  assumes "load_sheet E s reqs = (Inr df, reqs')"
    and "x \<noteq> []" and "to_datetime E [Str x] (Str x) = Timestamp a za"
    and "y \<noteq> []" and "to_datetime E [Str y] (Str y) = Timestamp b zb"
    and "dates = map (\<lambda>r. r ''Event Date'') (rows df)"
    and "kept = filter (within_range a b) (rows df)"
  shows "date_filter E df (Some x) (Some y)
      = (if tz_mismatch dates (Date a za) \<or> tz_mismatch dates (Date b zb) then Inl TypeError
         else Inr (df\<lparr>rows := kept\<rparr>))
    \<and> update_dashboard E s (Some x) (Some y) reqs
      = (if tz_mismatch dates (Date a za) \<or> tz_mismatch dates (Date b zb) then Inl TypeError
         else build_outputs E (df\<lparr>rows := kept\<rparr>), reqs')
    \<and> (\<forall>r \<in> set (rows df). \<forall>t z. r ''Event Date'' = Date t z \<longrightarrow>
          (r \<in> set kept \<longleftrightarrow> a \<le> t \<and> t \<le> b))
    \<and> (\<forall>r \<in> set (rows df). r ''Event Date'' = Null \<longrightarrow> r \<notin> set kept)"
proof -
  obtain df0 where "read_excel E s = Some df0"
    using assms(1) by (rule load_sheet_Inr)
  with assms(1) have cols: "map_of (columns df) ''Event Date'' = Some Datetime"
    by (rule loaded_labels)
  have f: "date_filter E df (Some x) (Some y)
      = (if tz_mismatch dates (Date a za) \<or> tz_mismatch dates (Date b zb) then Inl TypeError
         else Inr (df\<lparr>rows := kept\<rparr>))"
    unfolding assms(6,7)
    using cols loaded_rows(3) [OF assms(1)] assms(2,3,4,5) by (rule date_filter_coerced)
  moreover from f assms(1)
  have "update_dashboard E s (Some x) (Some y) reqs
      = (if tz_mismatch dates (Date a za) \<or> tz_mismatch dates (Date b zb) then Inl TypeError
         else build_outputs E (df\<lparr>rows := kept\<rparr>), reqs')"
    by (simp add: update_dashboard_loaded)
  moreover have "\<forall>r \<in> set (rows df). \<forall>t z. r ''Event Date'' = Date t z \<longrightarrow>
          (r \<in> set kept \<longleftrightarrow> a \<le> t \<and> t \<le> b)"
    by (simp add: assms(7) within_range_def)
  moreover have "\<forall>r \<in> set (rows df). r ''Event Date'' = Null \<longrightarrow> r \<notin> set kept"
    by (simp add: assms(7) within_range_def)
  ultimately show ?thesis
    by (intro conjI)
qed

text \<open>
  Claim C4, amended. Every run of \<open>update_dashboard\<close> in which the load succeeds sends,
  after whatever was requested before, one request for each row of the selected sheet, in
  row order, whatever the date range is: the geocoding precedes the date filter, and nothing
  is kept from one run to the next.
\<close>

theorem requests_per_sheet_row:
  assumes "read_excel E s = Some df0" and "fst (load_sheet E s reqs) = Inr df"
  shows "snd (update_dashboard E s sd ed reqs)
    = reqs @ map (\<lambda>r. request_of E (r ''Postal Code'')) (rows df0)"
proof -
  obtain reqs' where load: "load_sheet E s reqs = (Inr df, reqs')"
    using assms(2) by (cases "load_sheet E s reqs") simp
  from load_sheet_requests [OF assms(1) load] load show ?thesis
    by (simp add: update_dashboard_loaded)
qed

text \<open>
  Claim C5. A value of the \<open>Event Date\<close> column that cannot be parsed as a date is
  \<open>NaT\<close> in the table that \<open>load_sheet\<close> returns, and whether \<open>load_sheet\<close>
  raises does not depend on how the dates parse.
\<close>

theorem bad_dates_become_NaT:
  assumes "read_excel E s = Some df0" and "load_sheet E s reqs = (Inr df, reqs')"
    and "i < length (rows df0)"
    and "unparsable E (map (\<lambda>r. r ''Event Date'') (rows df0)) ((rows df0 ! i) ''Event Date'')"
  shows "i < length (rows df) \<and> (rows df ! i) ''Event Date'' = Null
    \<and> (\<forall>f. isl (fst (load_sheet (E\<lparr>to_datetime := f\<rparr>) s reqs)) = isl (fst (load_sheet E s reqs)))"
proof -
  from assms(2) obtain df0' lls where rd: "read_excel E s = Some df0'"
    and "''Event Date'' \<in> fst ` set (columns df0')"
    and "''Postal Code'' \<in> fst ` set (columns df0')"
    and ap: "apply_get_lat_lon E (map (\<lambda>r. r ''Postal Code'') (rows df0')) reqs = (Inr lls, reqs')"
    and "lls \<noteq> []"
    and df: "df = \<lparr>columns = loaded_columns (columns df0') lls,
           rows = map (\<lambda>(r, ll). loaded_row E (map (\<lambda>r. r ''Event Date'') (rows df0')) r ll) (zip (rows df0') lls)\<rparr>"
    by (rule load_sheet_Inr)
  from rd assms(1) have eq: "df0' = df0" by simp
  from apply_get_lat_lon_length [OF ap] eq have len: "length lls = length (rows df0)"
    by simp
  have null: "to_datetime_coerce E (map (\<lambda>r. r ''Event Date'') (rows df0)) ((rows df0 ! i) ''Event Date'') = Null"
    using assms(4) by (auto simp: unparsable_def to_datetime_coerce_def split: cell.splits parsed.splits)
  have "(rows df ! i) ''Event Date'' = Null"
    using df eq len assms(3) null by (simp add: loaded_row_simps)
  moreover have "i < length (rows df)"
    using df eq len assms(3) by simp
  moreover have "isl (fst (load_sheet (E\<lparr>to_datetime := f\<rparr>) s reqs)) = isl (fst (load_sheet E s reqs))" for f
    unfolding load_sheet_unfold
    by (simp add: apply_get_lat_lon_parser split: option.splits prod.splits sum.splits)
  ultimately show ?thesis by simp
qed

text \<open>
  Claim C10. The heatmap has one point for each row of the filtered record set, in row
  order, with the coordinates \<open>[lon, lat]\<close>; a row whose geocoding failed is not left
  out: its point has both coordinates absent.
\<close>

theorem heatmap_one_point_per_row:
  assumes "load_sheet E s reqs = (Inr df0, reqs')"
    and "date_filter E df0 sd ed = Inr df"
    and "update_dashboard E s sd ed reqs = (Inr out, reqs'')"
  shows "heatmap out = map (\<lambda>r. (r ''Longitude'', r ''Latitude'')) (rows df)
    \<and> length (heatmap out) = length (rows df)
    \<and> (\<forall>i < length (rows df). \<not> geocoded E ((rows df ! i) ''Postal Code'') \<longrightarrow>
          heatmap out ! i = (Null, Null))"
proof -
  from assms have "build_outputs E df = Inr out"
    by (simp add: update_dashboard_loaded)
  then have hm: "heatmap out = map (\<lambda>r. (r ''Longitude'', r ''Latitude'')) (rows df)"
    by (rule build_outputs_Inr)
  have "heatmap out ! i = (Null, Null)"
    if "i < length (rows df)" "\<not> geocoded E ((rows df ! i) ''Postal Code'')" for i
  proof -
    from that(1) have "rows df ! i \<in> set (rows df0)"
      using date_filter_loaded(2) [OF assms(1,2)] by auto
    with that(2) loaded_rows(1,2) [OF assms(1)]
    have "(rows df ! i) ''Latitude'' = Null" "(rows df ! i) ''Longitude'' = Null"
      by blast+
    with hm that(1) show ?thesis by simp
  qed
  with hm show ?thesis by simp
qed

section \<open>The properties on the fixture\<close>

lemma pair_of_Inr: "\<not> isl (fst p) \<Longrightarrow> snd p = q \<Longrightarrow> p = (Inr (projr (fst p)), q)"
  by (cases p; cases "fst p") auto

lemma sum_of_Inr: "\<not> isl m \<Longrightarrow> m = Inr (projr m)"
  by (cases m) auto

lemma fixture_read:
  "read_excel fixture_env ''Survey'' = Some fixture_sheet"
  "read_excel fixture_env ''Workshop'' = Some fixture_workshop"
  by (simp_all add: fixture_env_def fixture_workbook_def)

lemma fixture_parse:
  "to_datetime fixture_env [Str ''2024-01-05''] (Str ''2024-01-05'')
     = Timestamp (timestamp_at 19727 0) False"
  "to_datetime fixture_env [Str ''2024-02-10''] (Str ''2024-02-10'')
     = Timestamp (timestamp_at 19763 0) False"
  "to_datetime fixture_env [Str ''2024-01-05T00:00:00+08:00''] (Str ''2024-01-05T00:00:00+08:00'')
     = Timestamp (timestamp_at 19726 16) True"
  by (simp_all add: fixture_env_def)

lemma fixture_load:
  "load_sheet fixture_env ''Survey'' [] = (Inr (fixture_loaded ''Survey''), fixture_requests)"
proof -
  have "\<not> isl (fst (load_sheet fixture_env ''Survey'' []))"
    "snd (load_sheet fixture_env ''Survey'' []) = fixture_requests"
    by code_simp+
  then show "load_sheet fixture_env ''Survey'' [] = (Inr (fixture_loaded ''Survey''), fixture_requests)"
    unfolding fixture_loaded_def by (rule pair_of_Inr)
qed

lemma fixture_unfiltered:
  "date_filter fixture_env df None None = Inr df"
  by (simp add: date_filter_def truthy_def)

lemma fixture_run_all:
  "update_dashboard fixture_env ''Survey'' None None []
   = (Inr (projr (fst (update_dashboard fixture_env ''Survey'' None None []))), fixture_requests)"
proof -
  have "\<not> isl (fst (update_dashboard fixture_env ''Survey'' None None []))"
    "snd (update_dashboard fixture_env ''Survey'' None None []) = fixture_requests"
    by code_simp+
  then show ?thesis by (rule pair_of_Inr)
qed

lemma fixture_geocoding:
  "requests_get_json fixture_env (request_of fixture_env (Num 238801))
     = Inr \<lparr>found = 1, results = [\<lparr>LATITUDE = ''1.3'', LONGITUDE = ''103.8''\<rparr>]\<rparr>"
  "requests_get_json fixture_env (request_of fixture_env (Num 999999))
     = Inr \<lparr>found = 0, results = []\<rparr>"
  "py_float fixture_env ''1.3'' = Some (13 / 10)"
  "py_float fixture_env ''103.8'' = Some (1038 / 10)"
  by (simp_all add: fixture_env_def request_of_def search_url_def)

lemma fixture_request_of:
  "request_of fixture_env (Num 238801) = search_url ''238801''"
  "request_of fixture_env (Num 999999) = search_url ''999999''"
  by (simp_all add: fixture_env_def request_of_def)

lemma fixture_coordinates:
  "map (\<lambda>r. (r ''Postal Code'', r ''Latitude'', r ''Longitude'')) (rows (fixture_loaded ''Survey''))
   = [(Num 238801, Num (13 / 10), Num (1038 / 10)),
      (Num 999999, Null, Null),
      (Num 238801, Num (13 / 10), Num (1038 / 10)),
      (Num 999999, Null, Null)]"
  by code_simp

text \<open>
  Postal code 238801 is known to the fixture's service and 999999 is not; the loaded sheet
  has the coordinates in the first and third row only.
\<close>

theorem geocoding_result_witness:
  "get_lat_lon fixture_env (Num 238801) []
     = (Inr (Num (13 / 10), Num (1038 / 10)), [search_url ''238801''])
   \<and> get_lat_lon fixture_env (Num 999999) [] = (Inr (Null, Null), [search_url ''999999''])
   \<and> load_sheet fixture_env ''Survey'' [] = (Inr (fixture_loaded ''Survey''), fixture_requests)
   \<and> list_all
        (\<lambda>r. (r ''Latitude'' \<noteq> Null \<longleftrightarrow> geocoded fixture_env (r ''Postal Code''))
           \<and> (r ''Longitude'' \<noteq> Null \<longleftrightarrow> geocoded fixture_env (r ''Postal Code'')))
        (rows (fixture_loaded ''Survey''))
   \<and> map (\<lambda>r. (r ''Postal Code'', r ''Latitude'', r ''Longitude'')) (rows (fixture_loaded ''Survey''))
     = [(Num 238801, Num (13 / 10), Num (1038 / 10)),
        (Num 999999, Null, Null),
        (Num 238801, Num (13 / 10), Num (1038 / 10)),
        (Num 999999, Null, Null)]"
proof -
  note known = geocoding_result [where E = fixture_env and p = "Num 238801" and reqs = "[]"
      and resp = "\<lparr>found = 1, results = [\<lparr>LATITUDE = ''1.3'', LONGITUDE = ''103.8''\<rparr>]\<rparr>"
      and hit = "\<lparr>LATITUDE = ''1.3'', LONGITUDE = ''103.8''\<rparr>" and hits = "[]"
      and la = "13 / 10" and lo = "1038 / 10"
      and s = "''Survey''" and df = "fixture_loaded ''Survey''" and reqs' = fixture_requests]
  note unknown = geocoding_result [where E = fixture_env and p = "Num 999999" and reqs = "[]"
      and resp = "\<lparr>found = 0, results = []\<rparr>"
      and s = "''Survey''" and df = "fixture_loaded ''Survey''" and reqs' = fixture_requests]
  from known have "get_lat_lon fixture_env (Num 238801) []
     = (Inr (Num (13 / 10), Num (1038 / 10)), [request_of fixture_env (Num 238801)])"
    by (simp add: fixture_geocoding)
  then have "get_lat_lon fixture_env (Num 238801) []
     = (Inr (Num (13 / 10), Num (1038 / 10)), [search_url ''238801''])"
    by (simp only: fixture_request_of)
  moreover from unknown have "get_lat_lon fixture_env (Num 999999) []
     = (Inr (Null, Null), [request_of fixture_env (Num 999999)])"
    by (simp add: fixture_geocoding)
  then have "get_lat_lon fixture_env (Num 999999) [] = (Inr (Null, Null), [search_url ''999999''])"
    by (simp only: fixture_request_of)
  moreover from known have "\<forall>r \<in> set (rows (fixture_loaded ''Survey'')).
         (r ''Latitude'' \<noteq> Null \<longleftrightarrow> geocoded fixture_env (r ''Postal Code''))
       \<and> (r ''Longitude'' \<noteq> Null \<longleftrightarrow> geocoded fixture_env (r ''Postal Code''))"
    using fixture_load(1) by blast
  then have "list_all
        (\<lambda>r. (r ''Latitude'' \<noteq> Null \<longleftrightarrow> geocoded fixture_env (r ''Postal Code''))
           \<and> (r ''Longitude'' \<noteq> Null \<longleftrightarrow> geocoded fixture_env (r ''Postal Code'')))
        (rows (fixture_loaded ''Survey''))"
    by (simp only: list_all_iff)
  ultimately show ?thesis
    using fixture_load(1) fixture_coordinates by simp
qed

text \<open>
  Claim C3 says that a row whose date equals the end date is included. The second row of
  sheet \<open>Workshop\<close> is dated 31 January at ten in the morning. With the range from 5 to
  31 January the end date is read as the start of 31 January, and the callback drops the
  row, dated on the end date as it is: of the two rows it displays the first only.
\<close>

theorem end_day_row_dropped_counterexample:
  "\<not> isl (fst (load_sheet fixture_env ''Workshop'' []))
   \<and> length (rows (fixture_loaded ''Workshop'')) = 2
   \<and> (rows (fixture_loaded ''Workshop'') ! 1) ''Event Date'' = Date (timestamp_at 19753 10) False
   \<and> to_datetime fixture_env [Str ''2024-01-31''] (Str ''2024-01-31'')
       = Timestamp (timestamp_at 19753 0) False
   \<and> date_of (timestamp_at 19753 10) = date_of (timestamp_at 19753 0)
   \<and> \<not> isl (date_filter fixture_env (fixture_loaded ''Workshop'')
          (Some ''2024-01-05'') (Some ''2024-01-31''))
   \<and> length (rows (projr (date_filter fixture_env (fixture_loaded ''Workshop'')
          (Some ''2024-01-05'') (Some ''2024-01-31'')))) = 1
   \<and> (rows (projr (date_filter fixture_env (fixture_loaded ''Workshop'')
          (Some ''2024-01-05'') (Some ''2024-01-31''))) ! 0) ''Event Date''
       = Date (timestamp_at 19727 0) False
   \<and> \<not> isl (fst (update_dashboard fixture_env ''Workshop''
          (Some ''2024-01-05'') (Some ''2024-01-31'') []))
   \<and> length (heatmap (projr (fst (update_dashboard fixture_env ''Workshop''
          (Some ''2024-01-05'') (Some ''2024-01-31'') [])))) = 1"
  by code_simp

lemma fixture_dates:
  "map (\<lambda>r. r ''Event Date'') (rows (fixture_loaded ''Survey''))
   = [Date (timestamp_at 19727 0) False, Date (timestamp_at 19763 0) False, Null,
      Date (timestamp_at 19797 0) False]"
  "map (\<lambda>r. r ''Event Date'')
     (filter (within_range (timestamp_at 19727 0) (timestamp_at 19763 0))
        (rows (fixture_loaded ''Survey'')))
   = [Date (timestamp_at 19727 0) False, Date (timestamp_at 19763 0) False]"
  by code_simp+

lemma fixture_time_zones:
  "\<not> tz_mismatch (map (\<lambda>r. r ''Event Date'') (rows (fixture_loaded ''Survey'')))
       (Date (timestamp_at 19727 0) False)"
  "\<not> tz_mismatch (map (\<lambda>r. r ''Event Date'') (rows (fixture_loaded ''Survey'')))
       (Date (timestamp_at 19763 0) False)"
  "tz_mismatch (map (\<lambda>r. r ''Event Date'') (rows (fixture_loaded ''Survey'')))
       (Date (timestamp_at 19726 16) True)"
  by code_simp+

text \<open>
  From 5 January to 10 February on sheet \<open>Survey\<close>: the rows dated 5 January and
  10 February, one on each bound, are the two rows kept. With a start date that carries an
  offset, against the column without time zone, the comparison raises.
\<close>

theorem date_range_by_timestamp_witness:
  "load_sheet fixture_env ''Survey'' [] = (Inr (fixture_loaded ''Survey''), fixture_requests)
   \<and> map (\<lambda>r. r ''Event Date'') (rows (fixture_loaded ''Survey''))
     = [Date (timestamp_at 19727 0) False, Date (timestamp_at 19763 0) False, Null,
        Date (timestamp_at 19797 0) False]
   \<and> to_datetime fixture_env [Str ''2024-01-05''] (Str ''2024-01-05'')
     = Timestamp (timestamp_at 19727 0) False
   \<and> to_datetime fixture_env [Str ''2024-02-10''] (Str ''2024-02-10'')
     = Timestamp (timestamp_at 19763 0) False
   \<and> date_filter fixture_env (fixture_loaded ''Survey'') (Some ''2024-01-05'') (Some ''2024-02-10'')
     = Inr ((fixture_loaded ''Survey'')
         \<lparr>rows := filter (within_range (timestamp_at 19727 0) (timestamp_at 19763 0))
                    (rows (fixture_loaded ''Survey''))\<rparr>)
   \<and> map (\<lambda>r. r ''Event Date'')
       (filter (within_range (timestamp_at 19727 0) (timestamp_at 19763 0))
          (rows (fixture_loaded ''Survey'')))
     = [Date (timestamp_at 19727 0) False, Date (timestamp_at 19763 0) False]
   \<and> to_datetime fixture_env [Str ''2024-01-05T00:00:00+08:00''] (Str ''2024-01-05T00:00:00+08:00'')
     = Timestamp (timestamp_at 19726 16) True
   \<and> date_filter fixture_env (fixture_loaded ''Survey'')
       (Some ''2024-01-05T00:00:00+08:00'') (Some ''2024-02-10'')
     = Inl TypeError"
proof -
  have ne: "(''2024-01-05'' :: string) \<noteq> []" "(''2024-02-10'' :: string) \<noteq> []"
    "(''2024-01-05T00:00:00+08:00'' :: string) \<noteq> []"
    by simp_all
  from date_range_by_timestamp [OF fixture_load(1) ne(1) fixture_parse(1) ne(2) fixture_parse(2) refl refl]
  have "date_filter fixture_env (fixture_loaded ''Survey'') (Some ''2024-01-05'') (Some ''2024-02-10'')
     = (if tz_mismatch (map (\<lambda>r. r ''Event Date'') (rows (fixture_loaded ''Survey'')))
             (Date (timestamp_at 19727 0) False)
          \<or> tz_mismatch (map (\<lambda>r. r ''Event Date'') (rows (fixture_loaded ''Survey'')))
             (Date (timestamp_at 19763 0) False)
        then Inl TypeError
        else Inr ((fixture_loaded ''Survey'')
         \<lparr>rows := filter (within_range (timestamp_at 19727 0) (timestamp_at 19763 0))
                    (rows (fixture_loaded ''Survey''))\<rparr>))"
    by (rule conjunct1)
  then have naive: "date_filter fixture_env (fixture_loaded ''Survey'') (Some ''2024-01-05'') (Some ''2024-02-10'')
     = Inr ((fixture_loaded ''Survey'')
         \<lparr>rows := filter (within_range (timestamp_at 19727 0) (timestamp_at 19763 0))
                    (rows (fixture_loaded ''Survey''))\<rparr>)"
    by (simp only: fixture_time_zones simp_thms if_False)
  from date_range_by_timestamp [OF fixture_load(1) ne(3) fixture_parse(3) ne(2) fixture_parse(2) refl refl]
  have "date_filter fixture_env (fixture_loaded ''Survey'')
       (Some ''2024-01-05T00:00:00+08:00'') (Some ''2024-02-10'')
     = (if tz_mismatch (map (\<lambda>r. r ''Event Date'') (rows (fixture_loaded ''Survey'')))
             (Date (timestamp_at 19726 16) True)
          \<or> tz_mismatch (map (\<lambda>r. r ''Event Date'') (rows (fixture_loaded ''Survey'')))
             (Date (timestamp_at 19763 0) False)
        then Inl TypeError
        else Inr ((fixture_loaded ''Survey'')
         \<lparr>rows := filter (within_range (timestamp_at 19726 16) (timestamp_at 19763 0))
                    (rows (fixture_loaded ''Survey''))\<rparr>))"
    by (rule conjunct1)
  then have aware: "date_filter fixture_env (fixture_loaded ''Survey'')
       (Some ''2024-01-05T00:00:00+08:00'') (Some ''2024-02-10'')
     = Inl TypeError"
    by (simp only: fixture_time_zones simp_thms if_True)
  from naive aware show ?thesis
    by (simp only: fixture_load fixture_dates fixture_parse simp_thms)
qed

text \<open>
  Claim C4 says one geocoding request per displayed row. On sheet \<open>Survey\<close>, with the
  range from 5 to 31 January, the callback displays one row and has sent four requests.
\<close>

theorem requests_per_displayed_row_counterexample:
  "\<not> isl (fst (update_dashboard fixture_env ''Survey'' (Some ''2024-01-05'') (Some ''2024-01-31'') []))
   \<and> length (snd (update_dashboard fixture_env ''Survey'' (Some ''2024-01-05'') (Some ''2024-01-31'') [])) = 4
   \<and> length (heatmap (projr (fst
        (update_dashboard fixture_env ''Survey'' (Some ''2024-01-05'') (Some ''2024-01-31'') [])))) = 1"
  by code_simp

text \<open>The same run as above: four rows in the sheet, four requests.\<close>

theorem requests_per_sheet_row_witness:
  "read_excel fixture_env ''Survey'' = Some fixture_sheet
   \<and> fst (load_sheet fixture_env ''Survey'' []) = Inr (fixture_loaded ''Survey'')
   \<and> length (rows fixture_sheet) = 4
   \<and> snd (update_dashboard fixture_env ''Survey'' (Some ''2024-01-05'') (Some ''2024-01-31'') [])
     = map (\<lambda>r. request_of fixture_env (r ''Postal Code'')) (rows fixture_sheet)"
proof -
  have l: "fst (load_sheet fixture_env ''Survey'' []) = Inr (fixture_loaded ''Survey'')"
    by (simp add: fixture_load(1))
  from requests_per_sheet_row [OF fixture_read(1) l, of "Some ''2024-01-05''" "Some ''2024-01-31''"]
  have "snd (update_dashboard fixture_env ''Survey'' (Some ''2024-01-05'') (Some ''2024-01-31'') [])
     = map (\<lambda>r. request_of fixture_env (r ''Postal Code'')) (rows fixture_sheet)"
    by simp
  then show ?thesis
    using fixture_read(1) l by (simp add: fixture_sheet_def fixture_rows_def)
qed

lemma fixture_bad_date:
  "unparsable fixture_env (map (\<lambda>r. r ''Event Date'') (rows fixture_sheet))
     ((rows fixture_sheet ! 2) ''Event Date'')"
  "(rows fixture_sheet ! 2) ''Event Date'' = Str ''someday''"
  "(2::nat) < length (rows fixture_sheet)"
  by code_simp+

text \<open>The third row of sheet \<open>Survey\<close> has the date \<open>someday\<close>.\<close>

theorem bad_dates_become_NaT_witness:
  "read_excel fixture_env ''Survey'' = Some fixture_sheet
   \<and> load_sheet fixture_env ''Survey'' [] = (Inr (fixture_loaded ''Survey''), fixture_requests)
   \<and> (rows fixture_sheet ! 2) ''Event Date'' = Str ''someday''
   \<and> unparsable fixture_env (map (\<lambda>r. r ''Event Date'') (rows fixture_sheet))
       ((rows fixture_sheet ! 2) ''Event Date'')
   \<and> (rows (fixture_loaded ''Survey'') ! 2) ''Event Date'' = Null"
proof -
  from bad_dates_become_NaT [OF fixture_read(1) fixture_load(1) fixture_bad_date(3) fixture_bad_date(1)]
  have "(rows (fixture_loaded ''Survey'') ! 2) ''Event Date'' = Null"
    by simp
  then show ?thesis
    using fixture_read(1) fixture_load(1) fixture_bad_date(1,2) by simp
qed

text \<open>Selecting two columns on the fixture's page changes nothing.\<close>

theorem data_table_empty_witness:
  "callback fixture_env fixture_page []
     = (Inr (projr (fst (update_dashboard fixture_env ''Survey'' None None []))), fixture_requests)
   \<and> callback fixture_env (fixture_page\<lparr>data_filter_value := [''Age'', ''Gender'']\<rparr>) []
     = callback fixture_env fixture_page []
   \<and> data_table (projr (fst (update_dashboard fixture_env ''Survey'' None None []))) = ''''"
proof -
  have run: "callback fixture_env fixture_page []
     = (Inr (projr (fst (update_dashboard fixture_env ''Survey'' None None []))), fixture_requests)"
    using fixture_run_all by (simp add: callback_def fixture_page_def)
  from data_table_empty [where E = fixture_env and p = fixture_page and v = "[''Age'', ''Gender'']"
      and reqs = "[]" and out = "projr (fst (update_dashboard fixture_env ''Survey'' None None []))"
      and reqs' = fixture_requests] run
  show ?thesis by simp
qed

lemma fixture_run_march:
  "update_dashboard fixture_env ''Survey'' (Some ''2024-03-01'') (Some ''2024-03-31'') []
   = (Inr (projr (fst (update_dashboard fixture_env ''Survey'' (Some ''2024-03-01'') (Some ''2024-03-31'') []))),
      fixture_requests)"
proof -
  have "\<not> isl (fst (update_dashboard fixture_env ''Survey'' (Some ''2024-03-01'') (Some ''2024-03-31'') []))"
    "snd (update_dashboard fixture_env ''Survey'' (Some ''2024-03-01'') (Some ''2024-03-31'') []) = fixture_requests"
    by code_simp+
  then show ?thesis by (rule pair_of_Inr)
qed

lemma fixture_march:
  "date_filter fixture_env (fixture_loaded ''Survey'') (Some ''2024-03-01'') (Some ''2024-03-31'')
   = Inr (projr (date_filter fixture_env (fixture_loaded ''Survey'') (Some ''2024-03-01'') (Some ''2024-03-31'')))"
  "filter (\<lambda>c. c \<noteq> Null) (map (\<lambda>r. r ''Attendance'')
     (rows (projr (date_filter fixture_env (fixture_loaded ''Survey'')
        (Some ''2024-03-01'') (Some ''2024-03-31''))))) = []"
  "length (rows (projr (date_filter fixture_env (fixture_loaded ''Survey'')
        (Some ''2024-03-01'') (Some ''2024-03-31'')))) = 1"
proof -
  have "\<not> isl (date_filter fixture_env (fixture_loaded ''Survey'') (Some ''2024-03-01'') (Some ''2024-03-31''))"
    by code_simp
  then show "date_filter fixture_env (fixture_loaded ''Survey'') (Some ''2024-03-01'') (Some ''2024-03-31'')
   = Inr (projr (date_filter fixture_env (fixture_loaded ''Survey'') (Some ''2024-03-01'') (Some ''2024-03-31'')))"
    by (rule sum_of_Inr)
  show "filter (\<lambda>c. c \<noteq> Null) (map (\<lambda>r. r ''Attendance'')
     (rows (projr (date_filter fixture_env (fixture_loaded ''Survey'')
        (Some ''2024-03-01'') (Some ''2024-03-31''))))) = []"
    by code_simp
  show "length (rows (projr (date_filter fixture_env (fixture_loaded ''Survey'')
        (Some ''2024-03-01'') (Some ''2024-03-31'')))) = 1"
    by code_simp
qed

text \<open>
  March 2024 on sheet \<open>Survey\<close>: one row, with a blank attendance.
\<close>

theorem attrition_guard_witness:
  "update_dashboard fixture_env ''Survey'' (Some ''2024-03-01'') (Some ''2024-03-31'') []
     = (Inr (projr (fst (update_dashboard fixture_env ''Survey'' (Some ''2024-03-01'') (Some ''2024-03-31'') []))),
        fixture_requests)
   \<and> filter (\<lambda>c. c \<noteq> Null) (map (\<lambda>r. r ''Attendance'')
       (rows (projr (date_filter fixture_env (fixture_loaded ''Survey'')
          (Some ''2024-03-01'') (Some ''2024-03-31''))))) = []
   \<and> length (rows (projr (date_filter fixture_env (fixture_loaded ''Survey'')
          (Some ''2024-03-01'') (Some ''2024-03-31'')))) = 1
   \<and> snd (attendance_row (projr (fst
        (update_dashboard fixture_env ''Survey'' (Some ''2024-03-01'') (Some ''2024-03-31'') []))))
     = ''0.00%''"
proof -
  from attrition_guard [OF fixture_load(1) fixture_march(1) fixture_run_march fixture_march(2)]
  have "snd (attendance_row (projr (fst
        (update_dashboard fixture_env ''Survey'' (Some ''2024-03-01'') (Some ''2024-03-31'') []))))
     = format_2f fixture_env (Some 0) @ ''%''"
    by (rule conjunct1)
  then show ?thesis
    using fixture_run_march fixture_march(2,3) by (simp add: fixture_env_def)
qed

text \<open>With only a start date, and with only an end date.\<close>

theorem no_filter_without_both_dates_witness:
  "date_filter fixture_env (fixture_loaded ''Survey'') (Some ''2024-01-31'') None
     = Inr (fixture_loaded ''Survey'')
   \<and> update_dashboard fixture_env ''Survey'' (Some ''2024-01-31'') None []
     = (build_outputs fixture_env (fixture_loaded ''Survey''), fixture_requests)
   \<and> update_dashboard fixture_env ''Survey'' None (Some ''2024-01-31'') []
     = (build_outputs fixture_env (fixture_loaded ''Survey''), fixture_requests)"
proof -
  have "Some ''2024-01-31'' = None \<or> (None :: string option) = None"
    "(None :: string option) = None \<or> Some ''2024-01-31'' = None"
    by simp_all
  from no_filter_without_both_dates [OF this(1), of fixture_env "fixture_loaded ''Survey''" "''Survey''" "[]"]
    no_filter_without_both_dates [OF this(2), of fixture_env "fixture_loaded ''Survey''" "''Survey''" "[]"]
  show ?thesis
    by (simp add: fixture_load(1))
qed

lemma fixture_unknown_postal:
  "\<not> geocoded fixture_env ((rows (fixture_loaded ''Survey'') ! 1) ''Postal Code'')"
  "(1::nat) < length (rows (fixture_loaded ''Survey''))"
  "length (rows (fixture_loaded ''Survey'')) = 4"
  by code_simp+

text \<open>
  Sheet \<open>Survey\<close> unfiltered: four points, the second one without coordinates.
\<close>

theorem heatmap_one_point_per_row_witness:
  "update_dashboard fixture_env ''Survey'' None None []
     = (Inr (projr (fst (update_dashboard fixture_env ''Survey'' None None []))), fixture_requests)
   \<and> length (heatmap (projr (fst (update_dashboard fixture_env ''Survey'' None None [])))) = 4
   \<and> \<not> geocoded fixture_env ((rows (fixture_loaded ''Survey'') ! 1) ''Postal Code'')
   \<and> heatmap (projr (fst (update_dashboard fixture_env ''Survey'' None None []))) ! 1 = (Null, Null)"
proof -
  note hm = heatmap_one_point_per_row [OF fixture_load(1) fixture_unfiltered fixture_run_all]
  from hm have "length (heatmap (projr (fst (update_dashboard fixture_env ''Survey'' None None []))))
      = length (rows (fixture_loaded ''Survey''))"
    by (rule conjunct2 [THEN conjunct1])
  moreover from hm have "\<forall>i < length (rows (fixture_loaded ''Survey'')).
      \<not> geocoded fixture_env ((rows (fixture_loaded ''Survey'') ! i) ''Postal Code'') \<longrightarrow>
      heatmap (projr (fst (update_dashboard fixture_env ''Survey'' None None []))) ! i = (Null, Null)"
    by (rule conjunct2 [THEN conjunct2])
  then have "heatmap (projr (fst (update_dashboard fixture_env ''Survey'' None None []))) ! 1 = (Null, Null)"
    using fixture_unknown_postal(1,2) by blast
  ultimately show ?thesis
    using fixture_unknown_postal fixture_run_all by simp
qed

end
